theory Spec2Isabelle
  imports Main "HOL-Library.Word" "HOL-Library.Sublist"
begin

section \<open>Storage key derivation: packages/metadata/src/decorate/storage/createFunction.ts\<close>

text \<open>
  The module turns the description of one storage item (plain value, map or double map)
  into a callable entry that computes storage keys. The embedding follows the source
  function by function. A \<open>Uint8Array\<close> is a list of 8-bit words, a thrown JavaScript
  error is the left summand of a result, and the function object with attached
  properties that the source builds is a record of functions.
\<close>

subsection \<open>Values, errors and metadata\<close>

type_synonym u8 = "8 word"
type_synonym u8a = "u8 list"

text \<open>
  The values a caller can pass: \<open>CreateArgType\<close> of the source, the tuple form used for
  double maps, and \<open>undefined\<close> for an omitted argument. \<open>JNumber\<close> stands for
  \<open>number\<close>, \<open>BN\<close> and \<open>BigInt\<close>; the module never inspects such a value, it only
  hands it to the registry.
\<close>

datatype jsval =
    JUndefined
  | JNull
  | JBool bool
  | JString string
  | JNumber int
  | JU8a u8a
  | JArray "jsval list"

datatype error = Error string | TypeError string

text \<open>
  The metadata types live in \<open>@polkadot/types/interfaces/metadata\<close>, outside the two
  source files; the hasher kinds are those the specification enumerates, the entry
  type carries the fields the source reads (\<open>asMap.hasher\<close>, \<open>asMap.key\<close>,
  \<open>asDoubleMap.hasher\<close>, \<open>asDoubleMap.key1\<close>, \<open>asDoubleMap.key2\<close>,
  \<open>asDoubleMap.key2Hasher\<close>) and the value types.
\<close>

datatype StorageHasher =
    Identity | Twox64 | Twox128 | Twox256
  | Blake2_128 | Blake2_256 | Blake2_128Concat | Twox64Concat

datatype StorageEntryType =
    isPlain: Plain (asPlain: string)
  | isMap: Map (mapHasher: StorageHasher) (mapKey: string) (mapValue: string)
  | isDoubleMap: DoubleMap (dmHasher: StorageHasher) (dmKey1: string) (dmKey2: string)
      (dmValue: string) (dmKey2Hasher: StorageHasher)

record StorageEntryMetadata =
  name :: string
  modifier :: nat
  type :: StorageEntryType
  fallback :: u8a
  documentation :: "string list"

record CreateItemOptions =
  key :: "string option"
  skipHashing :: "bool option"

record CreateItemFn =
  meta :: StorageEntryMetadata
  "method" :: string
  prefix :: string
  "section" :: string

subsection \<open>Imported services\<close>

text \<open>
  \<open>xxhashAsU8a\<close> (\<open>@polkadot/util-crypto\<close>), \<open>getHasher\<close> (\<open>./getHasher\<close>) and
  \<open>u8aToU8a\<close> applied to the optional string \<open>options.key\<close> (\<open>@polkadot/util\<close>) are
  imports of the module whose code is not part of the two source files. They are
  parameters of the model: every theorem below holds for all of them.
\<close>

record Deps =
  xxhashAsU8a :: "string \<Rightarrow> nat \<Rightarrow> u8a"
  getHasher :: "StorageHasher option \<Rightarrow> u8a \<Rightarrow> u8a"
  u8aToU8a :: "string option \<Rightarrow> u8a"

text \<open>
  The registry is a parameter of every source function. \<open>createTypeU8a r t v\<close> is
  \<open>registry.createType(t, v).toU8a()\<close>, which throws when \<open>v\<close> cannot be represented
  as \<open>t\<close>; \<open>createTypeDefault r t\<close> is
  \<open>registry.createType('Bytes', registry.createType(t).toHex())\<close>, the encoding of the
  default value of \<open>t\<close>, which throws when the registry cannot construct \<open>t\<close>.
\<close>

record Registry =
  createTypeU8a :: "string \<Rightarrow> jsval \<Rightarrow> error + u8a"
  createTypeDefault :: "string \<Rightarrow> error + u8a"

subsection \<open>Utilities of @polkadot/util\<close>

definition isUndefined :: "jsval \<Rightarrow> bool" where
  "isUndefined v = (v = JUndefined)"

definition isNull :: "jsval \<Rightarrow> bool" where
  "isNull v = (v = JNull)"

definition isArray :: "jsval \<Rightarrow> bool" where
  "isArray v = (case v of JArray _ \<Rightarrow> True | _ \<Rightarrow> False)"

text \<open>\<open>args[i]\<close>: reading past the end of a JavaScript array gives \<open>undefined\<close>.\<close>

definition index :: "jsval \<Rightarrow> nat \<Rightarrow> jsval" where
  "index v i = (case v of JArray xs \<Rightarrow> (if i < length xs then xs ! i else JUndefined)
                | _ \<Rightarrow> JUndefined)"

text \<open>\<open>assert(condition, message)\<close> throws \<open>Error(message)\<close> when the condition is false.\<close>

definition assert :: "bool \<Rightarrow> string \<Rightarrow> error + unit" where
  "assert c msg = (if c then Inr () else Inl (Error msg))"

definition u8aConcat :: "u8a list \<Rightarrow> u8a" where
  "u8aConcat xs = concat xs"

definition EMPTY_U8A :: u8a where
  "EMPTY_U8A = []"

text \<open>
  Modelled from the spec: \<open>stringLowerFirst\<close> of \<open>@polkadot/util\<close> is not under src/.
  It lowercases the first character and keeps the rest; the empty string stays empty.
  Characters are ASCII here.
\<close>

definition toLowerCase :: "char \<Rightarrow> char" where
  "toLowerCase c =
     (if 65 \<le> (of_char c :: nat) \<and> (of_char c :: nat) \<le> 90
      then char_of (of_char c + (32 :: nat)) else c)"

definition stringLowerFirst :: "string \<Rightarrow> string" where
  "stringLowerFirst s = (case s of [] \<Rightarrow> [] | c # cs \<Rightarrow> toLowerCase c # cs)"

subsection \<open>The compact length prefix\<close>

text \<open>
  Modelled from the spec: \<open>compactAddLength\<close> and \<open>compactStripLength\<close> of
  \<open>@polkadot/util\<close> are not under src/. The specification fixes the format as
  \<open>compactLength(bodyBytes) ++ bodyBytes\<close>, with \<open>compactLength\<close> the SCALE
  variable-width unsigned integer: one byte \<open>n * 4\<close> for \<open>n \<le> 63\<close>, two bytes
  \<open>n * 4 + 1\<close> up to \<open>2^14 - 1\<close>, four bytes \<open>n * 4 + 2\<close> up to \<open>2^30 - 1\<close> (little
  endian), and beyond that a byte \<open>(k - 4) * 4 + 3\<close> followed by the \<open>k\<close> little-endian
  bytes of \<open>n\<close>.
\<close>

fun bnToU8a :: "nat \<Rightarrow> nat \<Rightarrow> u8a" where
  "bnToU8a 0 v = []"
| "bnToU8a (Suc k) v = word_of_nat v # bnToU8a k (v div 256)"

fun u8aToBn :: "u8a \<Rightarrow> nat" where
  "u8aToBn [] = 0"
| "u8aToBn (b # bs) = unat b + 256 * u8aToBn bs"

function bnToU8aMin :: "nat \<Rightarrow> u8a" where
  "bnToU8aMin v = (if v = 0 then [] else word_of_nat v # bnToU8aMin (v div 256))"
  by pat_completeness auto
termination
  by (relation "measure id") auto

declare bnToU8aMin.simps [simp del]

definition compactToU8a :: "nat \<Rightarrow> u8a" where
  "compactToU8a n =
     (if n \<le> 63 then [word_of_nat (n * 4)]
      else if n \<le> 16383 then bnToU8a 2 (n * 4 + 1)
      else if n \<le> 1073741823 then bnToU8a 4 (n * 4 + 2)
      else (let u8a = bnToU8aMin n
            in word_of_nat ((length u8a - 4) * 4 + 3) # u8a))"

definition compactAddLength :: "u8a \<Rightarrow> u8a" where
  "compactAddLength input = u8aConcat [compactToU8a (length input), input]"

definition subarray :: "u8a \<Rightarrow> nat \<Rightarrow> nat \<Rightarrow> u8a" where
  "subarray xs b e = take (e - b) (drop b xs)"

definition compactFromU8a :: "u8a \<Rightarrow> nat \<times> nat" where
  "compactFromU8a input =
     (let b0 = (case input of [] \<Rightarrow> 0 | b # _ \<Rightarrow> unat b);
          flag = b0 mod 4
      in if flag = 0 then (1, b0 div 4)
         else if flag = 1 then (2, u8aToBn (subarray input 0 2) div 4)
         else if flag = 2 then (4, u8aToBn (subarray input 0 4) div 4)
         else (let offset = 1 + (b0 div 4 + 4)
               in (offset, u8aToBn (subarray input 1 offset))))"

definition compactStripLength :: "u8a \<Rightarrow> nat \<times> u8a" where
  "compactStripLength input =
     (let (offset, len) = compactFromU8a input;
          total = offset + len
      in (total, subarray input offset total))"

subsection \<open>Raw and StorageKey\<close>

text \<open>
  Modelled from the spec: the classes \<open>Raw\<close> (\<open>@polkadot/types/codec\<close>) and
  \<open>StorageKey\<close> (\<open>@polkadot/types/primitive\<close>) are not under src/. A \<open>Raw\<close> holds
  the bytes it is constructed from. A \<open>StorageKey\<close> is, as its declaration in
  \<open>primitive/types.ts\<close> says, a \<open>Uint8Array\<close> and a codec value: it is modelled by its
  bytes, the \<open>method\<close> and \<open>section\<close> it is tagged with, and the metadata of the
  function it was made from, when it was made from one. Made from a \<open>Raw\<close> it holds the
  bytes of that \<open>Raw\<close>; made from the iteration function it holds the bytes that
  function returns without an argument (the specification's iteration prefix with
  no filter key) and carries the function's metadata.
\<close>

datatype Raw = Raw (rawU8a: u8a)

record StorageKey =
  skU8a :: u8a
  skMeta :: "StorageEntryMetadata option"
  skMethod :: string
  skSection :: string

definition storageKeyOfRaw :: "Raw \<Rightarrow> string \<Rightarrow> string \<Rightarrow> StorageKey" where
  "storageKeyOfRaw raw m s =
     \<lparr>skU8a = rawU8a raw, skMeta = None, skMethod = m, skSection = s\<rparr>"

definition storageKeyOfFn ::
  "(jsval \<Rightarrow> error + Raw) \<Rightarrow> StorageEntryMetadata \<Rightarrow> string \<Rightarrow> string \<Rightarrow> error + StorageKey" where
  "storageKeyOfFn iterFn iterMeta m s =
     (case iterFn JUndefined of
        Inl e \<Rightarrow> Inl e
      | Inr raw \<Rightarrow> Inr \<lparr>skU8a = rawU8a raw, skMeta = Some iterMeta, skMethod = m, skSection = s\<rparr>)"

subsection \<open>The storage entry\<close>

text \<open>
  \<open>StorageEntry\<close> of \<open>primitive/types.ts\<close>: a function with the fields of the item
  attached. \<open>call\<close> is the function itself; \<open>iterKey\<close> is optional, as in the
  interface. \<open>toJSON\<close> pairs the metadata with the \<open>storage\<close> triple
  \<open>(method, prefix, section)\<close>.
\<close>

record StorageEntry = CreateItemFn +
  call :: "jsval \<Rightarrow> error + u8a"
  iterKey :: "(jsval \<Rightarrow> error + StorageKey) option"
  keyPrefix :: "jsval \<Rightarrow> error + u8a"
  toJSON :: "StorageEntryMetadata \<times> (string \<times> string \<times> string)"

subsection \<open>getHashers and createPrefixedKey\<close>

definition getHashers :: "Deps \<Rightarrow> CreateItemFn \<Rightarrow> (u8a \<Rightarrow> u8a) \<times> (u8a \<Rightarrow> u8a) option" where
  "getHashers d itemFn =
     (case type (meta itemFn) of
        DoubleMap h k1 k2 v h2 \<Rightarrow> (getHasher d (Some h), Some (getHasher d (Some h2)))
      | Map h k v \<Rightarrow> (getHasher d (Some h), None)
      | Plain t \<Rightarrow> (getHasher d None, None))"

definition createPrefixedKey :: "Deps \<Rightarrow> CreateItemFn \<Rightarrow> u8a" where
  "createPrefixedKey d itemFn =
     u8aConcat [xxhashAsU8a d (prefix itemFn) 128, xxhashAsU8a d (method itemFn) 128]"

subsection \<open>createKeyDoubleMap and createKey\<close>

text \<open>
  \<open>type.asDoubleMap\<close> is read after the two assertions; the accessor of another variant
  throws, which the last case records with a message of its own, the accessor being
  outside the source files (\<open>createFunction\<close> never reaches it). The entry name is a
  \<open>Text\<close> object, so \<open>name || 'unknown'\<close> is the name.
\<close>

definition createKeyDoubleMap ::
  "Deps \<Rightarrow> Registry \<Rightarrow> CreateItemFn \<Rightarrow> jsval \<Rightarrow> (u8a \<Rightarrow> u8a) \<times> (u8a \<Rightarrow> u8a) option
     \<Rightarrow> error + u8a" where
  "createKeyDoubleMap d registry itemFn args hashers =
     (case assert (isArray args \<and> \<not> isUndefined (index args 0) \<and> \<not> isNull (index args 0)
                   \<and> \<not> isUndefined (index args 1) \<and> \<not> isNull (index args 1))
             (name (meta itemFn) @ '' is a DoubleMap and requires two arguments'') of
        Inl e \<Rightarrow> Inl e
      | Inr _ \<Rightarrow>
     (case snd hashers of
        None \<Rightarrow> Inl (Error ''2 hashing functions should be defined for DoubleMaps'')
      | Some hasher2 \<Rightarrow>
     (case type (meta itemFn) of
        DoubleMap h k1 k2 v h2 \<Rightarrow>
          (case createTypeU8a registry k1 (index args 0) of
             Inl e \<Rightarrow> Inl e
           | Inr val1 \<Rightarrow>
          (case createTypeU8a registry k2 (index args 1) of
             Inl e \<Rightarrow> Inl e
           | Inr val2 \<Rightarrow>
             Inr (compactAddLength (u8aConcat
                    [createPrefixedKey d itemFn, fst hashers val1, hasher2 val2]))))
      | _ \<Rightarrow> Inl (Error ''Cannot convert to DoubleMap''))))"

definition createKey ::
  "Deps \<Rightarrow> Registry \<Rightarrow> CreateItemFn \<Rightarrow> jsval \<Rightarrow> (u8a \<Rightarrow> u8a) \<Rightarrow> error + u8a" where
  "createKey d registry itemFn arg hasher =
     (case (case type (meta itemFn) of
              Map h k v \<Rightarrow>
                (case assert (\<not> isUndefined arg \<and> \<not> isNull arg)
                        (name (meta itemFn) @ '' is a Map and requires one argument'') of
                   Inl e \<Rightarrow> Inl e
                 | Inr _ \<Rightarrow> createTypeU8a registry k arg)
            | _ \<Rightarrow> Inr EMPTY_U8A) of
        Inl e \<Rightarrow> Inl e
      | Inr param \<Rightarrow>
          Inr (compactAddLength (u8aConcat
                 [createPrefixedKey d itemFn,
                  if length param \<noteq> 0 then hasher param else EMPTY_U8A])))"

subsection \<open>expandWithMeta\<close>

text \<open>
  The source attaches \<open>keyPrefix\<close> only at the end of \<open>createFunction\<close>; until then
  calling it is a \<open>TypeError\<close>, and \<open>iterKey\<close> is absent.
\<close>

definition expandWithMeta :: "CreateItemFn \<Rightarrow> (jsval \<Rightarrow> error + u8a) \<Rightarrow> StorageEntry" where
  "expandWithMeta itemFn storageFn =
     \<lparr>meta = meta itemFn,
      method = stringLowerFirst (method itemFn),
      prefix = prefix itemFn,
      section = section itemFn,
      call = storageFn,
      iterKey = None,
      keyPrefix = (\<lambda>_. Inl (TypeError ''storageFn.keyPrefix is not a function'')),
      toJSON = (meta itemFn, (method itemFn, prefix itemFn, section itemFn))\<rparr>"

subsection \<open>extendHeadMeta and extendPrefixedMap\<close>

text \<open>
  \<open>extendHeadMeta\<close> reads the key type (\<open>asMap.key\<close> or \<open>asDoubleMap.key1\<close>; on a plain item
  the accessor throws), builds the default value of the key type for the synthesised
  metadata (the registry throws when it cannot construct the type), attaches the
  metadata to the iteration function, builds \<open>prefixKey\<close> once, and returns the
  function that becomes \<open>iterKey\<close>. An error here is an error of \<open>createFunction\<close>.
\<close>

definition extendHeadMeta ::
  "Registry \<Rightarrow> CreateItemFn \<Rightarrow> StorageEntry \<Rightarrow> (jsval \<Rightarrow> error + Raw)
     \<Rightarrow> error + (jsval \<Rightarrow> error + StorageKey)" where
  "extendHeadMeta registry itemFn storageFn iterFn =
     (case (case type (meta itemFn) of
              Map h k v \<Rightarrow> Inr k
            | DoubleMap h k1 k2 v h2 \<Rightarrow> Inr k1
            | Plain t \<Rightarrow> Inl (Error ''Cannot convert to DoubleMap'')) of
        Inl e \<Rightarrow> Inl e
      | Inr outputType \<Rightarrow>
     (case createTypeDefault registry outputType of
        Inl e \<Rightarrow> Inl e
      | Inr fallbackBytes \<Rightarrow>
     (let iterMeta =
            \<lparr>name = name (meta itemFn),
             modifier = 1,
             type = Plain outputType,
             fallback = fallbackBytes,
             documentation = documentation (meta itemFn)\<rparr>
      in case storageKeyOfFn iterFn iterMeta (method storageFn) (section itemFn) of
           Inl e \<Rightarrow> Inl e
         | Inr prefixKey \<Rightarrow>
             Inr (\<lambda>arg.
               if \<not> isUndefined arg \<and> \<not> isNull arg
               then (case iterFn arg of
                       Inl e \<Rightarrow> Inl e
                     | Inr raw \<Rightarrow> Inr (storageKeyOfRaw raw (method storageFn) (section itemFn)))
               else Inr prefixKey))))"

definition iterFn :: "Deps \<Rightarrow> Registry \<Rightarrow> CreateItemFn \<Rightarrow> jsval \<Rightarrow> error + Raw" where
  "iterFn d registry itemFn arg =
     (case assert (isDoubleMap (type (meta itemFn)) \<or> isUndefined arg)
             ''Filtering arguments for keys/entries are only valid on double maps'' of
        Inl e \<Rightarrow> Inl e
      | Inr _ \<Rightarrow>
     (case type (meta itemFn) of
        DoubleMap h k1 k2 v h2 \<Rightarrow>
          (if \<not> isUndefined arg \<and> \<not> isNull arg
           then (case createTypeU8a registry k1 arg of
                   Inl e \<Rightarrow> Inl e
                 | Inr val \<Rightarrow>
                     Inr (Raw (u8aConcat
                            [createPrefixedKey d itemFn, getHasher d (Some h) val])))
           else Inr (Raw (createPrefixedKey d itemFn)))
      | _ \<Rightarrow> Inr (Raw (createPrefixedKey d itemFn))))"

definition extendPrefixedMap ::
  "Deps \<Rightarrow> Registry \<Rightarrow> CreateItemFn \<Rightarrow> StorageEntry \<Rightarrow> error + StorageEntry" where
  "extendPrefixedMap d registry itemFn storageFn =
     (case extendHeadMeta registry itemFn storageFn (iterFn d registry itemFn) of
        Inl e \<Rightarrow> Inl e
      | Inr f \<Rightarrow> Inr (storageFn\<lparr>iterKey := Some f\<rparr>))"

subsection \<open>createFunction\<close>

text \<open>\<open>options.skipHashing\<close> is an optional boolean, tested for truthiness.\<close>

definition truthy :: "bool option \<Rightarrow> bool" where
  "truthy b = (b = Some True)"

definition storageFn ::
  "Deps \<Rightarrow> Registry \<Rightarrow> CreateItemFn \<Rightarrow> CreateItemOptions \<Rightarrow> jsval \<Rightarrow> error + u8a" where
  "storageFn d registry itemFn options arg =
     (if isDoubleMap (type (meta itemFn))
      then createKeyDoubleMap d registry itemFn arg (getHashers d itemFn)
      else if truthy (skipHashing options)
      then Inr (compactAddLength (u8aToU8a d (key options)))
      else createKey d registry itemFn arg (fst (getHashers d itemFn)))"

definition createFunction ::
  "Deps \<Rightarrow> Registry \<Rightarrow> CreateItemFn \<Rightarrow> CreateItemOptions \<Rightarrow> error + StorageEntry" where
  "createFunction d registry itemFn options =
     (let entry = expandWithMeta itemFn (storageFn d registry itemFn options)
      in case (if isMap (type (meta itemFn)) \<or> isDoubleMap (type (meta itemFn))
               then extendPrefixedMap d registry itemFn entry
               else Inr entry) of
           Inl e \<Rightarrow> Inl e
         | Inr entry \<Rightarrow>
             Inr (entry\<lparr>keyPrefix := (\<lambda>arg.
                    case iterKey entry of
                      Some f \<Rightarrow> (case f arg of Inl e \<Rightarrow> Inl e | Inr k \<Rightarrow> Inr (skU8a k))
                    | None \<Rightarrow>
                        (case call entry JUndefined of
                           Inl e \<Rightarrow> Inl e
                         | Inr u8a \<Rightarrow> Inr (snd (compactStripLength u8a))))\<rparr>))"

subsection \<open>A test environment\<close>

text \<open>
  Concrete stand-ins for the imported services, small enough to evaluate by hand:
  a digest of \<open>n\<close> bytes is the input padded with zeros and cut to \<open>n\<close> bytes, a string
  becomes its character codes, the registry encodes byte arrays as they are, strings
  as their character codes, non-negative numbers as four little-endian bytes and
  booleans as one byte, whatever the type name, and rejects everything else. They
  serve the examples only; the general theorems quantify over all services.
\<close>

definition stringToU8a :: "string \<Rightarrow> u8a" where
  "stringToU8a s = map (\<lambda>c. word_of_nat (of_char c)) s"

definition testDigest :: "nat \<Rightarrow> u8a \<Rightarrow> u8a" where
  "testDigest n data = take n (data @ replicate n 0)"

definition testDeps :: Deps where
  "testDeps =
     \<lparr>xxhashAsU8a = (\<lambda>s bitLength. testDigest ((bitLength + 7) div 8) (stringToU8a s)),
      getHasher = (\<lambda>h. case h of
          None \<Rightarrow> testDigest 16
        | Some Identity \<Rightarrow> (\<lambda>data. data)
        | Some Twox64 \<Rightarrow> testDigest 8
        | Some Twox128 \<Rightarrow> testDigest 16
        | Some Twox256 \<Rightarrow> testDigest 32
        | Some Blake2_128 \<Rightarrow> testDigest 16
        | Some Blake2_256 \<Rightarrow> testDigest 32
        | Some Blake2_128Concat \<Rightarrow> (\<lambda>data. testDigest 16 data @ data)
        | Some Twox64Concat \<Rightarrow> (\<lambda>data. testDigest 8 data @ data)),
      u8aToU8a = (\<lambda>k. case k of None \<Rightarrow> [] | Some s \<Rightarrow> stringToU8a s)\<rparr>"

definition testRegistry :: Registry where
  "testRegistry =
     \<lparr>createTypeU8a = (\<lambda>t v. case v of
          JU8a bs \<Rightarrow> Inr bs
        | JString s \<Rightarrow> Inr (stringToU8a s)
        | JNumber n \<Rightarrow> (if 0 \<le> n then Inr (bnToU8a 4 (nat n))
                        else Inl (Error (''Unable to create '' @ t)))
        | JBool b \<Rightarrow> Inr [if b then 1 else 0]
        | _ \<Rightarrow> Inl (Error (''Unable to create '' @ t))),
      createTypeDefault = (\<lambda>t. Inr [])\<rparr>"

definition noOptions :: CreateItemOptions where
  "noOptions = \<lparr>key = None, skipHashing = None\<rparr>"

definition rawOptions :: CreateItemOptions where
  "rawOptions = \<lparr>key = Some '':code'', skipHashing = Some True\<rparr>"

definition timestampNow :: CreateItemFn where
  "timestampNow =
     \<lparr>meta = \<lparr>name = ''Now'', modifier = 1, type = Plain ''Moment'', fallback = [],
              documentation = []\<rparr>,
      method = ''Now'', prefix = ''Timestamp'', section = ''timestamp''\<rparr>"

definition systemAccount :: CreateItemFn where
  "systemAccount =
     \<lparr>meta = \<lparr>name = ''Account'', modifier = 1,
              type = Map Blake2_128Concat ''AccountId'' ''AccountInfo'', fallback = [],
              documentation = []\<rparr>,
      method = ''Account'', prefix = ''System'', section = ''system''\<rparr>"

definition stakingErasStakers :: CreateItemFn where
  "stakingErasStakers =
     \<lparr>meta = \<lparr>name = ''ErasStakers'', modifier = 1,
              type = DoubleMap Twox64Concat ''EraIndex'' ''AccountId'' ''Exposure'' Twox64Concat,
              fallback = [], documentation = []\<rparr>,
      method = ''ErasStakers'', prefix = ''Staking'', section = ''staking''\<rparr>"


text \<open>
  The entries of the three items. \<open>createFunction\<close> returns an entry whenever
  the registry can construct the key type (\<open>createFunction_returns\<close> below), as the
  test registry can, so \<open>projr\<close> names the entry it returns.
\<close>

definition nowEntry :: StorageEntry where
  "nowEntry = projr (createFunction testDeps testRegistry timestampNow noOptions)"

definition accountEntry :: StorageEntry where
  "accountEntry = projr (createFunction testDeps testRegistry systemAccount noOptions)"

definition erasStakersEntry :: StorageEntry where
  "erasStakersEntry = projr (createFunction testDeps testRegistry stakingErasStakers noOptions)"

definition erasStakersRawEntry :: StorageEntry where
  "erasStakersRawEntry =
     projr (createFunction testDeps testRegistry stakingErasStakers rawOptions)"

definition codeEntry :: StorageEntry where
  "codeEntry = projr (createFunction testDeps testRegistry timestampNow rawOptions)"

section \<open>Properties\<close>

subsection \<open>What createFunction returns\<close>

lemma iterFn_no_arg:
  "iterFn d registry itemFn JUndefined = Inr (Raw (createPrefixedKey d itemFn))"
  by (simp add: iterFn_def assert_def isUndefined_def split: StorageEntryType.splits)

lemma extendHeadMeta_keyed:
  assumes "extendHeadMeta registry itemFn sf (iterFn d registry itemFn) = Inr f"
  shows "\<exists>k. f JUndefined = Inr k
           \<and> skU8a k = createPrefixedKey d itemFn
           \<and> skMethod k = method sf \<and> skSection k = section itemFn
           \<and> (\<forall>arg. f arg =
                (if arg \<noteq> JUndefined \<and> arg \<noteq> JNull
                 then (case iterFn d registry itemFn arg of
                         Inl e \<Rightarrow> Inl e
                       | Inr raw \<Rightarrow> Inr (storageKeyOfRaw raw (method sf) (section itemFn)))
                 else Inr k))"
  using assms
  by (cases "type (meta itemFn)")
     (auto simp: extendHeadMeta_def storageKeyOfFn_def iterFn_no_arg isUndefined_def
        isNull_def split: sum.splits)

lemma extendHeadMeta_returns:
  assumes "\<not> isPlain (type (meta itemFn))"
    and "\<forall>t. \<exists>b. createTypeDefault registry t = Inr b"
  shows "\<exists>f. extendHeadMeta registry itemFn sf (iterFn d registry itemFn) = Inr f"
proof (cases "type (meta itemFn)")
  case (Plain t)
  with assms(1) show ?thesis by simp
next
  case (Map h k v)
  from assms(2) obtain b where "createTypeDefault registry k = Inr b"
    by blast
  with Map show ?thesis
    by (simp add: extendHeadMeta_def storageKeyOfFn_def iterFn_no_arg)
next
  case (DoubleMap h k1 k2 v h2)
  from assms(2) obtain b where "createTypeDefault registry k1 = Inr b"
    by blast
  with DoubleMap show ?thesis
    by (simp add: extendHeadMeta_def storageKeyOfFn_def iterFn_no_arg)
qed

lemma createFunction_returns:
  assumes "\<forall>t. \<exists>b. createTypeDefault registry t = Inr b"
  shows "\<exists>entry. createFunction d registry itemFn options = Inr entry"
proof (cases "isPlain (type (meta itemFn))")
  case True
  then show ?thesis
    by (cases "type (meta itemFn)") (simp_all add: createFunction_def Let_def)
next
  case False
  from extendHeadMeta_returns [OF False assms]
  obtain f where "extendHeadMeta registry itemFn
      (expandWithMeta itemFn (storageFn d registry itemFn options)) (iterFn d registry itemFn) = Inr f"
    by blast
  then show ?thesis
    by (simp add: createFunction_def extendPrefixedMap_def Let_def)
qed

lemma createFunction_fails:
  assumes "type (meta itemFn) = Map h k v \<or> type (meta itemFn) = DoubleMap h k k2 v h2"
    and "createTypeDefault registry k = Inl e"
  shows "createFunction d registry itemFn options = Inl e"
  using assms
  by (auto simp: createFunction_def extendPrefixedMap_def extendHeadMeta_def Let_def)

lemma createFunction_fields:
  assumes "createFunction d registry itemFn options = Inr entry"
  shows "call entry = storageFn d registry itemFn options"
    and "meta entry = meta itemFn"
    and "method entry = stringLowerFirst (method itemFn)"
    and "prefix entry = prefix itemFn"
    and "section entry = section itemFn"
    and "toJSON entry = (meta itemFn, (method itemFn, prefix itemFn, section itemFn))"
  using assms
  by (auto simp: createFunction_def extendPrefixedMap_def expandWithMeta_def Let_def
      split: if_splits sum.splits)

lemma createFunction_keyPrefix:
  assumes "createFunction d registry itemFn options = Inr entry"
  shows "keyPrefix entry arg =
     (case iterKey entry of
        Some f \<Rightarrow> (case f arg of Inl e \<Rightarrow> Inl e | Inr k \<Rightarrow> Inr (skU8a k))
      | None \<Rightarrow> (case call entry JUndefined of
                    Inl e \<Rightarrow> Inl e
                  | Inr u8a \<Rightarrow> Inr (snd (compactStripLength u8a))))"
  using assms
  by (auto simp: createFunction_def Let_def split: if_splits sum.splits)

lemma createFunction_iterKey_plain:
  assumes "createFunction d registry itemFn options = Inr entry"
    and "isPlain (type (meta itemFn))"
  shows "iterKey entry = None"
  using assms
  by (cases "type (meta itemFn)")
     (auto simp: createFunction_def expandWithMeta_def Let_def)

lemma createFunction_iterKey:
  assumes "createFunction d registry itemFn options = Inr entry"
    and "\<not> isPlain (type (meta itemFn))"
  shows "\<exists>f k. iterKey entry = Some f
           \<and> f JUndefined = Inr k
           \<and> skU8a k = createPrefixedKey d itemFn
           \<and> skMethod k = stringLowerFirst (method itemFn) \<and> skSection k = section itemFn
           \<and> (\<forall>arg. f arg =
                (if arg \<noteq> JUndefined \<and> arg \<noteq> JNull
                 then (case iterFn d registry itemFn arg of
                         Inl e \<Rightarrow> Inl e
                       | Inr raw \<Rightarrow> Inr (storageKeyOfRaw raw (stringLowerFirst (method itemFn))
                                          (section itemFn)))
                 else Inr k))"
proof -
  let ?sf = "expandWithMeta itemFn (storageFn d registry itemFn options)"
  have keyed: "isMap (type (meta itemFn)) \<or> isDoubleMap (type (meta itemFn))"
    using assms(2) by (cases "type (meta itemFn)") simp_all
  from assms(1) keyed
  obtain f where f: "extendHeadMeta registry itemFn ?sf (iterFn d registry itemFn) = Inr f"
    and i: "iterKey entry = Some f"
    by (auto simp: createFunction_def extendPrefixedMap_def Let_def split: sum.splits)
  from extendHeadMeta_keyed [OF f]
  obtain k where fu: "f JUndefined = Inr k"
    and k: "skU8a k = createPrefixedKey d itemFn" "skMethod k = method ?sf"
      "skSection k = section itemFn"
    and fk: "\<forall>arg. f arg =
                (if arg \<noteq> JUndefined \<and> arg \<noteq> JNull
                 then (case iterFn d registry itemFn arg of
                         Inl e \<Rightarrow> Inl e
                       | Inr raw \<Rightarrow> Inr (storageKeyOfRaw raw (method ?sf) (section itemFn)))
                 else Inr k)"
    by blast
  have m: "method ?sf = stringLowerFirst (method itemFn)"
    by (simp add: expandWithMeta_def)
  from i fu k fk show ?thesis
    unfolding m by (intro exI [of _ f] exI [of _ k]) simp
qed


lemma u8aConcat_simps [simp]:
  "u8aConcat [a, b] = a @ b" "u8aConcat [a, b, c] = a @ b @ c"
  by (simp_all add: u8aConcat_def)

lemma length_bnToU8a [simp]: "length (bnToU8a k v) = k"
  by (induction k arbitrary: v) simp_all

lemma bnToU8a_nonempty: "0 < k \<Longrightarrow> bnToU8a k v \<noteq> []"
  by (cases k) simp_all

lemma compactToU8a_nonempty: "compactToU8a n \<noteq> []"
  by (simp add: compactToU8a_def Let_def bnToU8a_nonempty)

lemma compactAddLength_longer: "length (compactAddLength xs) > length xs"
  using compactToU8a_nonempty [of "length xs"] by (simp add: compactAddLength_def)

lemma compactAddLength_neq: "compactAddLength xs \<noteq> xs"
  using compactAddLength_longer [of xs] by auto

lemma u8aToBn_bnToU8a: "v < 256 ^ k \<Longrightarrow> u8aToBn (bnToU8a k v) = v"
proof (induction k arbitrary: v)
  case 0
  then show ?case by simp
next
  case (Suc k)
  then have "v div 256 < 256 ^ k"
    by (simp add: less_mult_imp_div_less mult.commute)
  with Suc.IH have "u8aToBn (bnToU8a k (v div 256)) = v div 256" .
  then show ?case by (simp add: unat_of_nat)
qed

lemma compactFromU8a_one:
  assumes "n \<le> 63"
  shows "compactFromU8a (compactToU8a n @ xs) = (length (compactToU8a n), n)"
proof -
  from assms have u: "unat (word_of_nat (n * 4) :: u8) = n * 4"
    by (simp add: unat_of_nat del: of_nat_mult)
  have c: "compactToU8a n = [word_of_nat (n * 4)]"
    using assms by (simp add: compactToU8a_def del: of_nat_mult)
  show ?thesis
    unfolding c by (simp add: compactFromU8a_def u del: of_nat_mult)
qed

lemma unat_u8: "unat (word_of_nat m :: u8) = m mod 256"
  by (simp add: unat_of_nat)

lemma bnToU8a_2: "bnToU8a 2 v = [word_of_nat v, word_of_nat (v div 256)]"
proof -
  have "bnToU8a (Suc (Suc 0)) v = [word_of_nat v, word_of_nat (v div 256)]"
    by simp
  then show ?thesis by (simp only: numeral_2_eq_2)
qed

lemma bnToU8a_4:
  "bnToU8a 4 v =
     [word_of_nat v, word_of_nat (v div 256), word_of_nat (v div 256 div 256),
      word_of_nat (v div 256 div 256 div 256)]"
proof -
  have e: "(4 :: nat) = Suc (Suc (Suc (Suc 0)))"
    by simp
  show ?thesis
    unfolding e by simp
qed

lemma compactFromU8a_two:
  assumes "63 < n" and "n \<le> 16383"
  shows "compactFromU8a (compactToU8a n @ xs) = (length (compactToU8a n), n)"
proof -
  let ?v = "n * 4 + 1"
  have c: "compactToU8a n = bnToU8a 2 ?v"
    using assms by (simp add: compactToU8a_def)
  have r: "u8aToBn (bnToU8a 2 ?v) = ?v"
    using assms by (intro u8aToBn_bnToU8a) simp
  have b0: "unat (word_of_nat ?v :: u8) = ?v mod 256"
    by (rule unat_u8)
  have f: "?v mod 256 mod 4 = 1"
  proof -
    have "?v mod 256 mod 4 = ?v mod 4"
      by (rule mod_mod_cancel) simp
    also have "\<dots> = 1"
      by presburger
    finally show ?thesis .
  qed
  have s: "subarray (bnToU8a 2 ?v @ xs) 0 2 = bnToU8a 2 ?v"
    by (simp add: subarray_def)
  have h: "(case bnToU8a 2 ?v @ xs of [] \<Rightarrow> 0 | b # _ \<Rightarrow> unat b) = ?v mod 256"
    by (simp only: bnToU8a_2 b0 append_Cons list.case)
  show ?thesis
    unfolding c compactFromU8a_def h s r Let_def f by simp
qed

lemma compactFromU8a_four:
  assumes "16383 < n" and "n \<le> 1073741823"
  shows "compactFromU8a (compactToU8a n @ xs) = (length (compactToU8a n), n)"
proof -
  let ?v = "n * 4 + 2"
  have c: "compactToU8a n = bnToU8a 4 ?v"
    using assms by (simp add: compactToU8a_def)
  have r: "u8aToBn (bnToU8a 4 ?v) = ?v"
    using assms by (intro u8aToBn_bnToU8a) simp
  have b0: "unat (word_of_nat ?v :: u8) = ?v mod 256"
    by (rule unat_u8)
  have f: "?v mod 256 mod 4 = 2"
  proof -
    have "?v mod 256 mod 4 = ?v mod 4"
      by (rule mod_mod_cancel) simp
    also have "\<dots> = 2"
      by presburger
    finally show ?thesis .
  qed
  have s: "subarray (bnToU8a 4 ?v @ xs) 0 4 = bnToU8a 4 ?v"
    by (simp add: subarray_def)
  have h: "(case bnToU8a 4 ?v @ xs of [] \<Rightarrow> 0 | b # _ \<Rightarrow> unat b) = ?v mod 256"
    by (simp only: bnToU8a_4 b0 append_Cons list.case)
  show ?thesis
    unfolding c compactFromU8a_def h s r Let_def f by simp
qed

lemma compactFromU8a_compactToU8a:
  assumes "n < 2 ^ 30"
  shows "compactFromU8a (compactToU8a n @ xs) = (length (compactToU8a n), n)"
proof -
  from assms have "n \<le> 1073741823"
    by simp
  then consider "n \<le> 63" | "63 < n" "n \<le> 16383" | "16383 < n" "n \<le> 1073741823"
    by linarith
  then show ?thesis
  proof cases
    case 1
    then show ?thesis by (rule compactFromU8a_one)
  next
    case 2
    then show ?thesis by (rule compactFromU8a_two)
  next
    case 3
    then show ?thesis by (rule compactFromU8a_four)
  qed
qed

lemma compactStripLength_compactAddLength:
  assumes "length xs < 2 ^ 30"
  shows "compactStripLength (compactAddLength xs) = (length (compactAddLength xs), xs)"
  using compactFromU8a_compactToU8a [OF assms, of xs]
  by (simp add: compactStripLength_def compactAddLength_def subarray_def u8aConcat_def)

lemma call_double_map_Inr:
  assumes "createFunction d registry itemFn options = Inr entry"
    and "type (meta itemFn) = DoubleMap h k1 k2 v h2"
    and "call entry args = Inr full"
  shows "\<exists>val1 val2. index args 0 \<noteq> JUndefined \<and> index args 0 \<noteq> JNull
           \<and> createTypeU8a registry k1 (index args 0) = Inr val1
           \<and> createTypeU8a registry k2 (index args 1) = Inr val2
           \<and> full = compactAddLength (createPrefixedKey d itemFn @ getHasher d (Some h) val1
                                         @ getHasher d (Some h2) val2)"
  using assms(2,3)
  by (auto simp: createFunction_fields(1) [OF assms(1)] storageFn_def createKeyDoubleMap_def
      getHashers_def assert_def isUndefined_def isNull_def split: if_splits sum.splits)

lemma iterFn_double_map:
  assumes "type (meta itemFn) = DoubleMap h k1 k2 v h2"
    and "arg \<noteq> JUndefined" and "arg \<noteq> JNull"
  shows "iterFn d registry itemFn arg =
           (case createTypeU8a registry k1 arg of
              Inl e \<Rightarrow> Inl e
            | Inr val \<Rightarrow> Inr (Raw (createPrefixedKey d itemFn @ getHasher d (Some h) val)))"
  using assms
  by (simp add: iterFn_def assert_def isUndefined_def isNull_def split: sum.splits)

lemma call_plain:
  assumes "createFunction d registry itemFn options = Inr entry"
    and "isPlain (type (meta itemFn))"
  shows "call entry arg =
           (if truthy (skipHashing options)
            then Inr (compactAddLength (u8aToU8a d (key options)))
            else Inr (compactAddLength (createPrefixedKey d itemFn)))"
  using assms(2)
  by (cases "type (meta itemFn)")
     (simp_all add: createFunction_fields(1) [OF assms(1)] storageFn_def createKey_def
        EMPTY_U8A_def)

lemma keyPrefix_keyed_no_arg:
  assumes "createFunction d registry itemFn options = Inr entry"
    and "\<not> isPlain (type (meta itemFn))"
  shows "keyPrefix entry JUndefined = Inr (createPrefixedKey d itemFn)"
  using createFunction_iterKey [OF assms]
  by (auto simp: createFunction_keyPrefix [OF assms(1)])

lemma keyPrefix_plain:
  assumes "createFunction d registry itemFn options = Inr entry"
    and "isPlain (type (meta itemFn))"
    and "\<not> truthy (skipHashing options)"
    and "length (createPrefixedKey d itemFn) < 2 ^ 30"
  shows "keyPrefix entry arg = Inr (createPrefixedKey d itemFn)"
  using assms(3)
  by (simp add: createFunction_keyPrefix [OF assms(1)]
      createFunction_iterKey_plain [OF assms(1,2)] call_plain [OF assms(1,2)]
      compactStripLength_compactAddLength [OF assms(4)])

lemma iterKey_defined:
  assumes "createFunction d registry itemFn options = Inr entry"
    and "\<not> isPlain (type (meta itemFn))"
  shows "iterKey entry = Some (the (iterKey entry))"
  using createFunction_iterKey [OF assms] by auto

lemma testRegistry_defaults: "\<forall>t. \<exists>b. createTypeDefault testRegistry t = Inr b"
  by (simp add: testRegistry_def)

lemma nowEntry_created:
  "createFunction testDeps testRegistry timestampNow noOptions = Inr nowEntry"
  using createFunction_returns [OF testRegistry_defaults, of testDeps timestampNow noOptions]
  by (auto simp: nowEntry_def)

lemma accountEntry_created:
  "createFunction testDeps testRegistry systemAccount noOptions = Inr accountEntry"
  using createFunction_returns [OF testRegistry_defaults, of testDeps systemAccount noOptions]
  by (auto simp: accountEntry_def)

lemma erasStakersEntry_created:
  "createFunction testDeps testRegistry stakingErasStakers noOptions = Inr erasStakersEntry"
  using createFunction_returns [OF testRegistry_defaults, of testDeps stakingErasStakers noOptions]
  by (auto simp: erasStakersEntry_def)

lemma erasStakersRawEntry_created:
  "createFunction testDeps testRegistry stakingErasStakers rawOptions = Inr erasStakersRawEntry"
  using createFunction_returns [OF testRegistry_defaults, of testDeps stakingErasStakers rawOptions]
  by (auto simp: erasStakersRawEntry_def)

lemma codeEntry_created:
  "createFunction testDeps testRegistry timestampNow rawOptions = Inr codeEntry"
  using createFunction_returns [OF testRegistry_defaults, of testDeps timestampNow rawOptions]
  by (auto simp: codeEntry_def)

lemma test_xxhash_length: "length (xxhashAsU8a testDeps s 128) = 16"
  by (simp add: testDeps_def testDigest_def)

subsection \<open>The base prefix\<close>

text \<open>
  Claim C1, as amended. The base prefix is the 128-bit xxhash of the item's \<open>prefix\<close>
  field followed by the 128-bit xxhash of its \<open>method\<close> field. The \<open>section\<close> field
  and the metadata (and with it the declared hasher and the shape) do not enter it:
  replacing them leaves it unchanged. Where the 128-bit xxhash returns 16 bytes, the
  base prefix is 32 bytes long.
\<close>

theorem createPrefixedKey_hashes_prefix_and_method:
  assumes "\<forall>s. length (xxhashAsU8a d s 128) = 16"
  shows "createPrefixedKey d itemFn =
           xxhashAsU8a d (prefix itemFn) 128 @ xxhashAsU8a d (method itemFn) 128
       \<and> createPrefixedKey d (itemFn\<lparr>meta := m, section := s\<rparr>) = createPrefixedKey d itemFn
       \<and> length (createPrefixedKey d itemFn) = 32"
  using assms by (simp add: createPrefixedKey_def)

theorem createPrefixedKey_hashes_prefix_and_method_witness:
  "(\<forall>s. length (xxhashAsU8a testDeps s 128) = 16)
   \<and> createPrefixedKey testDeps systemAccount =
       xxhashAsU8a testDeps ''System'' 128 @ xxhashAsU8a testDeps ''Account'' 128
   \<and> createPrefixedKey testDeps (systemAccount\<lparr>meta := meta timestampNow, section := ''other''\<rparr>)
       = createPrefixedKey testDeps systemAccount
   \<and> length (createPrefixedKey testDeps systemAccount) = 32"
proof -
  have h: "\<forall>s. length (xxhashAsU8a testDeps s 128) = 16"
    by (simp add: test_xxhash_length)
  have p: "prefix systemAccount = ''System''" "method systemAccount = ''Account''"
    by (simp_all add: systemAccount_def)
  note w = createPrefixedKey_hashes_prefix_and_method
         [OF h, where itemFn = systemAccount and m = "meta timestampNow" and s = "''other''",
          unfolded p]
  from w h show ?thesis by blast
qed

text \<open>
  Claim C1 as stated takes the first digest over the \<open>section\<close>. For the item
  \<open>System.Account\<close>, whose section is \<open>system\<close> and whose prefix is \<open>System\<close>, the
  base prefix is not the digest of the section followed by the digest of the method.
\<close>

theorem createPrefixedKey_section_counterexample:
  "createPrefixedKey testDeps systemAccount \<noteq>
     xxhashAsU8a testDeps (section systemAccount) 128
       @ xxhashAsU8a testDeps (method systemAccount) 128"
  by code_simp

text \<open>
  The example does not depend on the digest used in it: whenever the 128-bit digests
  of the section and of the prefix are different byte strings of one length, the
  base prefix is not the one built from the section.
\<close>

lemma createPrefixedKey_not_from_section:
  assumes "length (xxhashAsU8a d (section itemFn) 128) = length (xxhashAsU8a d (prefix itemFn) 128)"
    and "xxhashAsU8a d (section itemFn) 128 \<noteq> xxhashAsU8a d (prefix itemFn) 128"
  shows "createPrefixedKey d itemFn \<noteq>
           xxhashAsU8a d (section itemFn) 128 @ xxhashAsU8a d (method itemFn) 128"
  using assms by (simp add: createPrefixedKey_def)

subsection \<open>Keys of map items\<close>

text \<open>
  Claim C2. For a map item and an argument that is neither \<open>undefined\<close> nor \<open>null\<close> and
  that the registry encodes as \<open>param\<close> for the declared key type, \<open>createKey\<close> returns
  the compact length prefix of the base prefix followed by the hasher applied to
  \<open>param\<close>, and of the base prefix alone when \<open>param\<close> is empty. Invoking the entry
  gives the same with the item's declared hasher, when no raw key overrides it.
\<close>

theorem createKey_map:
  assumes "type (meta itemFn) = Map h k v"
    and "arg \<noteq> JUndefined" and "arg \<noteq> JNull"
    and "createTypeU8a registry k arg = Inr param"
  shows "createKey d registry itemFn arg hasher =
           Inr (compactAddLength
                  (createPrefixedKey d itemFn @ (if length param = 0 then [] else hasher param)))
       \<and> (createFunction d registry itemFn options = Inr entry \<and> \<not> truthy (skipHashing options)
            \<longrightarrow> call entry arg =
                  Inr (compactAddLength
                         (createPrefixedKey d itemFn
                            @ (if length param = 0 then [] else getHasher d (Some h) param))))"
proof -
  have ck: "createKey d registry itemFn arg hs =
           Inr (compactAddLength
                  (createPrefixedKey d itemFn @ (if length param = 0 then [] else hs param)))"
    for hs
    using assms
    by (simp add: createKey_def assert_def isUndefined_def isNull_def EMPTY_U8A_def)
  have "call entry arg = createKey d registry itemFn arg (getHasher d (Some h))"
    if "createFunction d registry itemFn options = Inr entry"
      and "\<not> truthy (skipHashing options)"
    using that assms(1)
    by (simp add: createFunction_fields(1) [OF that(1)] storageFn_def getHashers_def)
  with ck show ?thesis by simp
qed

theorem createKey_map_witness:
  "type (meta systemAccount) = Map Blake2_128Concat ''AccountId'' ''AccountInfo''
   \<and> JU8a [1, 2, 3] \<noteq> JUndefined \<and> JU8a [1, 2, 3] \<noteq> JNull
   \<and> createTypeU8a testRegistry ''AccountId'' (JU8a [1, 2, 3]) = Inr [1, 2, 3]
   \<and> createFunction testDeps testRegistry systemAccount noOptions = Inr accountEntry
   \<and> \<not> truthy (skipHashing noOptions)
   \<and> call accountEntry (JU8a [1, 2, 3]) =
       Inr [204, 83, 121, 115, 116, 101, 109, 0, 0, 0, 0, 0, 0, 0, 0, 0, 0,
            65, 99, 99, 111, 117, 110, 116, 0, 0, 0, 0, 0, 0, 0, 0, 0,
            1, 2, 3, 0, 0, 0, 0, 0, 0, 0, 0, 0, 0, 0, 0, 0, 1, 2, 3]
   \<and> JU8a [] \<noteq> JUndefined \<and> JU8a [] \<noteq> JNull
   \<and> createTypeU8a testRegistry ''AccountId'' (JU8a []) = Inr []
   \<and> call accountEntry (JU8a []) =
       Inr [128, 83, 121, 115, 116, 101, 109, 0, 0, 0, 0, 0, 0, 0, 0, 0, 0,
            65, 99, 99, 111, 117, 110, 116, 0, 0, 0, 0, 0, 0, 0, 0, 0]"
proof -
  have t: "type (meta systemAccount) = Map Blake2_128Concat ''AccountId'' ''AccountInfo''"
    by (simp add: systemAccount_def)
  have a: "JU8a [1, 2, 3] \<noteq> JUndefined" "JU8a [1, 2, 3] \<noteq> JNull"
    by simp_all
  have a0: "JU8a [] \<noteq> JUndefined" "JU8a [] \<noteq> JNull"
    by simp_all
  have enc: "createTypeU8a testRegistry ''AccountId'' (JU8a [1, 2, 3]) = Inr [1, 2, 3]"
    by (simp add: testRegistry_def)
  have enc0: "createTypeU8a testRegistry ''AccountId'' (JU8a []) = Inr []"
    by (simp add: testRegistry_def)
  have ns: "\<not> truthy (skipHashing noOptions)"
    by (simp add: noOptions_def truthy_def)
  have v: "compactAddLength (createPrefixedKey testDeps systemAccount
             @ (if length [1, 2, 3 :: u8] = 0 then []
                else getHasher testDeps (Some Blake2_128Concat) [1, 2, 3])) =
       [204, 83, 121, 115, 116, 101, 109, 0, 0, 0, 0, 0, 0, 0, 0, 0, 0,
            65, 99, 99, 111, 117, 110, 116, 0, 0, 0, 0, 0, 0, 0, 0, 0,
            1, 2, 3, 0, 0, 0, 0, 0, 0, 0, 0, 0, 0, 0, 0, 0, 1, 2, 3]"
    by code_simp
  have v0: "compactAddLength (createPrefixedKey testDeps systemAccount
             @ (if length ([] :: u8a) = 0 then []
                else getHasher testDeps (Some Blake2_128Concat) [])) =
       [128, 83, 121, 115, 116, 101, 109, 0, 0, 0, 0, 0, 0, 0, 0, 0, 0,
            65, 99, 99, 111, 117, 110, 116, 0, 0, 0, 0, 0, 0, 0, 0, 0]"
    by code_simp
  from createKey_map [OF t a enc, of testDeps "\<lambda>x. x" noOptions accountEntry]
  have 1: "call accountEntry (JU8a [1, 2, 3]) =
          Inr (compactAddLength (createPrefixedKey testDeps systemAccount
             @ (if length [1, 2, 3 :: u8] = 0 then []
                else getHasher testDeps (Some Blake2_128Concat) [1, 2, 3])))"
    using accountEntry_created ns by blast
  from createKey_map [OF t a0 enc0, of testDeps "\<lambda>x. x" noOptions accountEntry]
  have 2: "call accountEntry (JU8a []) =
          Inr (compactAddLength (createPrefixedKey testDeps systemAccount
             @ (if length ([] :: u8a) = 0 then []
                else getHasher testDeps (Some Blake2_128Concat) [])))"
    using accountEntry_created ns by blast
  from 1 2 v v0 t a a0 enc enc0 ns accountEntry_created show ?thesis
    by (simp only: simp_thms)
qed

subsection \<open>Arity\<close>

text \<open>
  Claim C3, as amended. \<open>createKey\<close> on a map item fails on \<open>undefined\<close> and \<open>null\<close>
  with the error naming the item and the map shape, and so does invoking the entry
  of a map item when no raw key overrides the derivation. \<open>createKeyDoubleMap\<close> fails
  on anything but an array whose first two elements are neither \<open>undefined\<close> nor
  \<open>null\<close>, with the error naming the item and the double map shape, and so does
  invoking the entry of a double map item. In each case no bytes are returned.
\<close>

theorem arity_enforced_for_maps:
  assumes "createFunction d registry itemFn options = Inr entry"
  shows "(isMap (type (meta itemFn)) \<and> (arg = JUndefined \<or> arg = JNull)
          \<longrightarrow> createKey d registry itemFn arg hasher =
                Inl (Error (name (meta itemFn) @ '' is a Map and requires one argument'')))
       \<and> (isMap (type (meta itemFn)) \<and> \<not> truthy (skipHashing options)
            \<and> (arg = JUndefined \<or> arg = JNull)
          \<longrightarrow> call entry arg =
                Inl (Error (name (meta itemFn) @ '' is a Map and requires one argument'')))
       \<and> (\<not> (isArray arg \<and> index arg 0 \<noteq> JUndefined \<and> index arg 0 \<noteq> JNull
                             \<and> index arg 1 \<noteq> JUndefined \<and> index arg 1 \<noteq> JNull)
          \<longrightarrow> createKeyDoubleMap d registry itemFn arg hashers =
                Inl (Error (name (meta itemFn) @ '' is a DoubleMap and requires two arguments'')))
       \<and> (isDoubleMap (type (meta itemFn))
            \<and> \<not> (isArray arg \<and> index arg 0 \<noteq> JUndefined \<and> index arg 0 \<noteq> JNull
                             \<and> index arg 1 \<noteq> JUndefined \<and> index arg 1 \<noteq> JNull)
          \<longrightarrow> call entry arg =
                Inl (Error (name (meta itemFn) @ '' is a DoubleMap and requires two arguments'')))"
proof -
  have ck: "createKey d registry itemFn arg hs =
        Inl (Error (name (meta itemFn) @ '' is a Map and requires one argument''))"
    if "isMap (type (meta itemFn))" and "arg = JUndefined \<or> arg = JNull" for hs
    using that
    by (cases "type (meta itemFn)")
       (auto simp: createKey_def assert_def isUndefined_def isNull_def)
  have cd: "createKeyDoubleMap d registry itemFn arg hs =
        Inl (Error (name (meta itemFn) @ '' is a DoubleMap and requires two arguments''))"
    if "\<not> (isArray arg \<and> index arg 0 \<noteq> JUndefined \<and> index arg 0 \<noteq> JNull
              \<and> index arg 1 \<noteq> JUndefined \<and> index arg 1 \<noteq> JNull)" for hs
    using that
    by (auto simp: createKeyDoubleMap_def assert_def isUndefined_def isNull_def)
  have m: "call entry arg = createKey d registry itemFn arg (fst (getHashers d itemFn))"
    if "isMap (type (meta itemFn))" and "\<not> truthy (skipHashing options)"
    using that
    by (cases "type (meta itemFn)")
       (simp_all add: createFunction_fields(1) [OF assms] storageFn_def)
  have dm: "call entry arg = createKeyDoubleMap d registry itemFn arg (getHashers d itemFn)"
    if "isDoubleMap (type (meta itemFn))"
    using that by (simp add: createFunction_fields(1) [OF assms] storageFn_def)
  from ck cd m dm show ?thesis by simp
qed

theorem arity_enforced_for_maps_witness:
  "createFunction testDeps testRegistry systemAccount noOptions = Inr accountEntry
   \<and> isMap (type (meta systemAccount)) \<and> \<not> truthy (skipHashing noOptions)
   \<and> call accountEntry JNull = Inl (Error ''Account is a Map and requires one argument'')
   \<and> createFunction testDeps testRegistry stakingErasStakers noOptions = Inr erasStakersEntry
   \<and> isDoubleMap (type (meta stakingErasStakers))
   \<and> isArray (JArray [JNumber 4]) \<and> index (JArray [JNumber 4]) 1 = JUndefined
   \<and> call erasStakersEntry (JArray [JNumber 4]) =
       Inl (Error ''ErasStakers is a DoubleMap and requires two arguments'')"
proof -
  have m: "isMap (type (meta systemAccount))" "\<not> truthy (skipHashing noOptions)"
    "name (meta systemAccount) = ''Account''"
    by (simp_all add: systemAccount_def noOptions_def truthy_def)
  have dm: "isDoubleMap (type (meta stakingErasStakers))"
    "isArray (JArray [JNumber 4])" "index (JArray [JNumber 4]) 1 = JUndefined"
    "name (meta stakingErasStakers) = ''ErasStakers''"
    by (simp_all add: stakingErasStakers_def isArray_def index_def)
  from arity_enforced_for_maps [OF accountEntry_created, where arg = JNull] m
  have 1: "call accountEntry JNull = Inl (Error ''Account is a Map and requires one argument'')"
    by simp
  from arity_enforced_for_maps [OF erasStakersEntry_created, where arg = "JArray [JNumber 4]"] dm
  have 2: "call erasStakersEntry (JArray [JNumber 4]) =
       Inl (Error ''ErasStakers is a DoubleMap and requires two arguments'')"
    by simp
  from 1 2 m dm accountEntry_created erasStakersEntry_created show ?thesis by (simp only: simp_thms)
qed

text \<open>
  Claim C3 as stated also has a plain item fail when it is invoked with an argument.
  The entry of the plain item \<open>Timestamp.Now\<close>, invoked with the number 4, returns
  the length-prefixed base prefix.
\<close>

theorem plain_argument_counterexample:
  "createFunction testDeps testRegistry timestampNow noOptions = Inr nowEntry
   \<and> isPlain (type (meta timestampNow))
   \<and> call nowEntry (JNumber 4) =
       Inr [128, 84, 105, 109, 101, 115, 116, 97, 109, 112, 0, 0, 0, 0, 0, 0, 0,
            78, 111, 119, 0, 0, 0, 0, 0, 0, 0, 0, 0, 0, 0, 0, 0]"
proof -
  have "isPlain (type (meta timestampNow))"
    by (simp add: timestampNow_def)
  moreover have "call nowEntry (JNumber 4) =
       Inr [128, 84, 105, 109, 101, 115, 116, 97, 109, 112, 0, 0, 0, 0, 0, 0, 0,
            78, 111, 119, 0, 0, 0, 0, 0, 0, 0, 0, 0, 0, 0, 0, 0]"
    by code_simp
  ultimately show ?thesis using nowEntry_created by simp
qed

subsection \<open>The raw key\<close>

text \<open>
  Claim C4, as amended. For a plain or map item created with \<open>skipHashing\<close> set, every
  invocation returns the compact length prefix of the bytes of \<open>options.key\<close>, whatever
  the argument and the registry: nothing is encoded or hashed. (A double map item
  takes the double map path whether or not \<open>skipHashing\<close> is set.)
\<close>

theorem raw_key_for_plain_and_map:
  assumes "createFunction d registry itemFn options = Inr entry"
    and "\<not> isDoubleMap (type (meta itemFn))"
    and "truthy (skipHashing options)"
  shows "call entry arg = Inr (compactAddLength (u8aToU8a d (key options)))"
  using assms(2,3) by (simp add: createFunction_fields(1) [OF assms(1)] storageFn_def)

theorem raw_key_for_plain_and_map_witness:
  "createFunction testDeps testRegistry timestampNow rawOptions = Inr codeEntry
   \<and> \<not> isDoubleMap (type (meta timestampNow))
   \<and> truthy (skipHashing rawOptions)
   \<and> call codeEntry JUndefined = Inr [20, 58, 99, 111, 100, 101]"
proof -
  have h: "\<not> isDoubleMap (type (meta timestampNow))" "truthy (skipHashing rawOptions)"
    by (simp_all add: timestampNow_def rawOptions_def truthy_def)
  have v: "compactAddLength (u8aToU8a testDeps (key rawOptions)) = [20, 58, 99, 111, 100, 101]"
    by code_simp
  from raw_key_for_plain_and_map [OF codeEntry_created h, of JUndefined] v h codeEntry_created
  show ?thesis by (simp only: simp_thms)
qed

text \<open>
  Claim C4 as stated holds whatever the shape. The double map item
  \<open>Staking.ErasStakers\<close>, created with the raw key \<open>:code\<close> and \<open>skipHashing\<close>, still
  demands its two arguments, and given them returns the hashed key, not the raw one.
\<close>

theorem raw_key_double_map_counterexample:
  "createFunction testDeps testRegistry stakingErasStakers rawOptions = Inr erasStakersRawEntry
   \<and> truthy (skipHashing rawOptions)
   \<and> compactAddLength (u8aToU8a testDeps (key rawOptions)) = [20, 58, 99, 111, 100, 101]
   \<and> call erasStakersRawEntry JUndefined =
       Inl (Error ''ErasStakers is a DoubleMap and requires two arguments'')
   \<and> call erasStakersRawEntry (JArray [JNumber 4, JU8a [9, 9]]) =
       Inr [216, 83, 116, 97, 107, 105, 110, 103, 0, 0, 0, 0, 0, 0, 0, 0, 0,
            69, 114, 97, 115, 83, 116, 97, 107, 101, 114, 115, 0, 0, 0, 0, 0,
            4, 0, 0, 0, 0, 0, 0, 0, 4, 0, 0, 0,
            9, 9, 0, 0, 0, 0, 0, 0, 9, 9]"
proof -
  have "truthy (skipHashing rawOptions)"
    by (simp add: rawOptions_def truthy_def)
  moreover have "compactAddLength (u8aToU8a testDeps (key rawOptions)) =
      [20, 58, 99, 111, 100, 101]"
    by code_simp
  moreover have "call erasStakersRawEntry JUndefined =
       Inl (Error ''ErasStakers is a DoubleMap and requires two arguments'')"
    by code_simp
  moreover have "call erasStakersRawEntry (JArray [JNumber 4, JU8a [9, 9]]) =
       Inr [216, 83, 116, 97, 107, 105, 110, 103, 0, 0, 0, 0, 0, 0, 0, 0, 0,
            69, 114, 97, 115, 83, 116, 97, 107, 101, 114, 115, 0, 0, 0, 0, 0,
            4, 0, 0, 0, 0, 0, 0, 0, 4, 0, 0, 0,
            9, 9, 0, 0, 0, 0, 0, 0, 9, 9]"
    by code_simp
  ultimately show ?thesis using erasStakersRawEntry_created by (simp only: simp_thms)
qed

subsection \<open>Iteration keys of double maps\<close>

text \<open>
  Claim C5, as amended. For a double map item, the bytes of \<open>iterKey(firstKey)\<close> are a
  prefix of the body of every key the entry derives from \<open>[firstKey, secondKey]\<close>:
  that key is the compact length prefix of a body, and the iteration key is a prefix
  of this body.
\<close>

theorem iterKey_prefix_of_body:
  assumes "createFunction d registry itemFn options = Inr entry"
    and "isDoubleMap (type (meta itemFn))"
    and "iterKey entry = Some f"
    and "f firstKey = Inr ik"
    and "call entry (JArray [firstKey, secondKey]) = Inr full"
  shows "\<exists>body. full = compactAddLength body \<and> Sublist.prefix (skU8a ik) body"
proof -
  from assms(2) obtain h k1 k2 v h2 where t: "type (meta itemFn) = DoubleMap h k1 k2 v h2"
    by (cases "type (meta itemFn)") simp_all
  from call_double_map_Inr [OF assms(1) t assms(5)]
  obtain val1 val2 where k: "firstKey \<noteq> JUndefined" "firstKey \<noteq> JNull"
    and e1: "createTypeU8a registry k1 firstKey = Inr val1"
    and full: "full = compactAddLength (createPrefixedKey d itemFn @ getHasher d (Some h) val1
                                         @ getHasher d (Some h2) val2)"
    by (auto simp: index_def)
  from assms(2) have np: "\<not> isPlain (type (meta itemFn))"
    by (cases "type (meta itemFn)") simp_all
  from createFunction_iterKey [OF assms(1) np] assms(3) k
  have "f firstKey = (case iterFn d registry itemFn firstKey of
                         Inl e \<Rightarrow> Inl e
                       | Inr raw \<Rightarrow> Inr (storageKeyOfRaw raw (stringLowerFirst (method itemFn))
                                          (section itemFn)))"
    by auto
  with assms(4) e1 have "skU8a ik = createPrefixedKey d itemFn @ getHasher d (Some h) val1"
    by (auto simp: iterFn_double_map [OF t k] storageKeyOfRaw_def)
  with full show ?thesis
    by (intro exI [of _ "createPrefixedKey d itemFn @ getHasher d (Some h) val1
                                         @ getHasher d (Some h2) val2"]) simp
qed


theorem iterKey_prefix_of_body_witness:
  "createFunction testDeps testRegistry stakingErasStakers noOptions = Inr erasStakersEntry
   \<and> isDoubleMap (type (meta stakingErasStakers))
   \<and> iterKey erasStakersEntry = Some (the (iterKey erasStakersEntry))
   \<and> the (iterKey erasStakersEntry) (JNumber 4) = Inr
      \<lparr>skU8a = [83, 116, 97, 107, 105, 110, 103, 0, 0, 0, 0, 0, 0, 0, 0, 0,
                69, 114, 97, 115, 83, 116, 97, 107, 101, 114, 115, 0, 0, 0, 0, 0,
                4, 0, 0, 0, 0, 0, 0, 0, 4, 0, 0, 0],
       skMeta = None, skMethod = ''erasStakers'', skSection = ''staking''\<rparr>
   \<and> call erasStakersEntry (JArray [JNumber 4, JU8a [9, 9]]) = Inr
       [216, 83, 116, 97, 107, 105, 110, 103, 0, 0, 0, 0, 0, 0, 0, 0, 0,
        69, 114, 97, 115, 83, 116, 97, 107, 101, 114, 115, 0, 0, 0, 0, 0,
        4, 0, 0, 0, 0, 0, 0, 0, 4, 0, 0, 0,
        9, 9, 0, 0, 0, 0, 0, 0, 9, 9]
   \<and> (\<exists>body.
       [216, 83, 116, 97, 107, 105, 110, 103, 0, 0, 0, 0, 0, 0, 0, 0, 0,
        69, 114, 97, 115, 83, 116, 97, 107, 101, 114, 115, 0, 0, 0, 0, 0,
        4, 0, 0, 0, 0, 0, 0, 0, 4, 0, 0, 0,
        9, 9, 0, 0, 0, 0, 0, 0, 9, 9] = compactAddLength body
       \<and> Sublist.prefix
       [83, 116, 97, 107, 105, 110, 103, 0, 0, 0, 0, 0, 0, 0, 0, 0,
        69, 114, 97, 115, 83, 116, 97, 107, 101, 114, 115, 0, 0, 0, 0, 0,
        4, 0, 0, 0, 0, 0, 0, 0, 4, 0, 0, 0] body)"
proof -
  have dm: "isDoubleMap (type (meta stakingErasStakers))"
    by (simp add: stakingErasStakers_def)
  then have np: "\<not> isPlain (type (meta stakingErasStakers))"
    by (simp add: stakingErasStakers_def)
  note f = iterKey_defined [OF erasStakersEntry_created np]
  have ik: "the (iterKey erasStakersEntry) (JNumber 4) = Inr
      \<lparr>skU8a = [83, 116, 97, 107, 105, 110, 103, 0, 0, 0, 0, 0, 0, 0, 0, 0,
                69, 114, 97, 115, 83, 116, 97, 107, 101, 114, 115, 0, 0, 0, 0, 0,
                4, 0, 0, 0, 0, 0, 0, 0, 4, 0, 0, 0],
       skMeta = None, skMethod = ''erasStakers'', skSection = ''staking''\<rparr>"
    by code_simp
  have full: "call erasStakersEntry (JArray [JNumber 4, JU8a [9, 9]]) = Inr
       [216, 83, 116, 97, 107, 105, 110, 103, 0, 0, 0, 0, 0, 0, 0, 0, 0,
        69, 114, 97, 115, 83, 116, 97, 107, 101, 114, 115, 0, 0, 0, 0, 0,
        4, 0, 0, 0, 0, 0, 0, 0, 4, 0, 0, 0,
        9, 9, 0, 0, 0, 0, 0, 0, 9, 9]"
    by code_simp
  from iterKey_prefix_of_body [OF erasStakersEntry_created dm f ik full]
  have "\<exists>body.
       [216, 83, 116, 97, 107, 105, 110, 103, 0, 0, 0, 0, 0, 0, 0, 0, 0,
        69, 114, 97, 115, 83, 116, 97, 107, 101, 114, 115, 0, 0, 0, 0, 0,
        4, 0, 0, 0, 0, 0, 0, 0, 4, 0, 0, 0,
        9, 9, 0, 0, 0, 0, 0, 0, 9, 9] = compactAddLength body
       \<and> Sublist.prefix
       [83, 116, 97, 107, 105, 110, 103, 0, 0, 0, 0, 0, 0, 0, 0, 0,
        69, 114, 97, 115, 83, 116, 97, 107, 101, 114, 115, 0, 0, 0, 0, 0,
        4, 0, 0, 0, 0, 0, 0, 0, 4, 0, 0, 0] body"
    by simp
  with erasStakersEntry_created dm f ik full show ?thesis by (simp only: simp_thms)
qed

text \<open>
  Claim C5 as stated has the iteration key a prefix of the full key itself, which
  starts with the length header. It need not be: for \<open>Staking.ErasStakers\<close>, first key
  4 and second key the bytes 9, 9, the full key starts with its length header 216 and
  the iteration key with the first byte of the base prefix.
\<close>

theorem iterKey_prefix_counterexample:
  "the (iterKey erasStakersEntry) (JNumber 4) = Inr
      \<lparr>skU8a = [83, 116, 97, 107, 105, 110, 103, 0, 0, 0, 0, 0, 0, 0, 0, 0,
                69, 114, 97, 115, 83, 116, 97, 107, 101, 114, 115, 0, 0, 0, 0, 0,
                4, 0, 0, 0, 0, 0, 0, 0, 4, 0, 0, 0],
       skMeta = None, skMethod = ''erasStakers'', skSection = ''staking''\<rparr>
   \<and> call erasStakersEntry (JArray [JNumber 4, JU8a [9, 9]]) = Inr
       [216, 83, 116, 97, 107, 105, 110, 103, 0, 0, 0, 0, 0, 0, 0, 0, 0,
        69, 114, 97, 115, 83, 116, 97, 107, 101, 114, 115, 0, 0, 0, 0, 0,
        4, 0, 0, 0, 0, 0, 0, 0, 4, 0, 0, 0,
        9, 9, 0, 0, 0, 0, 0, 0, 9, 9]
   \<and> \<not> Sublist.prefix
       ([83, 116, 97, 107, 105, 110, 103, 0, 0, 0, 0, 0, 0, 0, 0, 0,
        69, 114, 97, 115, 83, 116, 97, 107, 101, 114, 115, 0, 0, 0, 0, 0,
        4, 0, 0, 0, 0, 0, 0, 0, 4, 0, 0, 0] :: u8a)
       [216, 83, 116, 97, 107, 105, 110, 103, 0, 0, 0, 0, 0, 0, 0, 0, 0,
        69, 114, 97, 115, 83, 116, 97, 107, 101, 114, 115, 0, 0, 0, 0, 0,
        4, 0, 0, 0, 0, 0, 0, 0, 4, 0, 0, 0,
        9, 9, 0, 0, 0, 0, 0, 0, 9, 9]"
proof -
  have "the (iterKey erasStakersEntry) (JNumber 4) = Inr
      \<lparr>skU8a = [83, 116, 97, 107, 105, 110, 103, 0, 0, 0, 0, 0, 0, 0, 0, 0,
                69, 114, 97, 115, 83, 116, 97, 107, 101, 114, 115, 0, 0, 0, 0, 0,
                4, 0, 0, 0, 0, 0, 0, 0, 4, 0, 0, 0],
       skMeta = None, skMethod = ''erasStakers'', skSection = ''staking''\<rparr>"
    by code_simp
  moreover have "call erasStakersEntry (JArray [JNumber 4, JU8a [9, 9]]) = Inr
       [216, 83, 116, 97, 107, 105, 110, 103, 0, 0, 0, 0, 0, 0, 0, 0, 0,
        69, 114, 97, 115, 83, 116, 97, 107, 101, 114, 115, 0, 0, 0, 0, 0,
        4, 0, 0, 0, 0, 0, 0, 0, 4, 0, 0, 0,
        9, 9, 0, 0, 0, 0, 0, 0, 9, 9]"
    by code_simp
  ultimately show ?thesis by simp
qed

text \<open>
  Claim C6, as amended. For a double map item and a first key that is neither
  \<open>undefined\<close> nor \<open>null\<close> and that the registry encodes as \<open>val\<close>, \<open>iterKey\<close> returns a
  key whose bytes are exactly the base prefix followed by the first hasher applied
  to \<open>val\<close>, tagged with the entry's method and section. These bytes carry no compact
  length prefix, and \<open>keyPrefix\<close> returns the same bytes.
\<close>

theorem iterKey_unprefixed:
  assumes "createFunction d registry itemFn options = Inr entry"
    and "type (meta itemFn) = DoubleMap h k1 k2 v h2"
    and "firstKey \<noteq> JUndefined" and "firstKey \<noteq> JNull"
    and "createTypeU8a registry k1 firstKey = Inr val"
  shows "\<exists>f ik. iterKey entry = Some f \<and> f firstKey = Inr ik
           \<and> skU8a ik = createPrefixedKey d itemFn @ getHasher d (Some h) val
           \<and> skU8a ik \<noteq> compactAddLength (skU8a ik)
           \<and> skMethod ik = stringLowerFirst (method itemFn) \<and> skSection ik = section itemFn
           \<and> keyPrefix entry firstKey = Inr (skU8a ik)"
proof -
  from assms(2) have np: "\<not> isPlain (type (meta itemFn))"
    by simp
  from createFunction_iterKey [OF assms(1) np] assms(3,4)
  obtain f where f: "iterKey entry = Some f"
    and ff: "f firstKey = (case iterFn d registry itemFn firstKey of
                         Inl e \<Rightarrow> Inl e
                       | Inr raw \<Rightarrow> Inr (storageKeyOfRaw raw (stringLowerFirst (method itemFn))
                                          (section itemFn)))"
    by auto
  let ?ik = "storageKeyOfRaw (Raw (createPrefixedKey d itemFn @ getHasher d (Some h) val))
               (stringLowerFirst (method itemFn)) (section itemFn)"
  from ff assms(5) have fk: "f firstKey = Inr ?ik"
    by (simp add: iterFn_double_map [OF assms(2,3,4)])
  have "keyPrefix entry firstKey = Inr (skU8a ?ik)"
    by (simp add: createFunction_keyPrefix [OF assms(1)] f fk)
  with f fk show ?thesis
    using compactAddLength_neq [of "skU8a ?ik"]
    by (intro exI [of _ f] exI [of _ ?ik]) (simp add: storageKeyOfRaw_def)
qed


theorem iterKey_unprefixed_witness:
  "createFunction testDeps testRegistry stakingErasStakers noOptions = Inr erasStakersEntry
   \<and> type (meta stakingErasStakers) =
       DoubleMap Twox64Concat ''EraIndex'' ''AccountId'' ''Exposure'' Twox64Concat
   \<and> JNumber 4 \<noteq> JUndefined \<and> JNumber 4 \<noteq> JNull
   \<and> createTypeU8a testRegistry ''EraIndex'' (JNumber 4) = Inr [4, 0, 0, 0]
   \<and> (\<exists>f ik. iterKey erasStakersEntry = Some f \<and> f (JNumber 4) = Inr ik
         \<and> skU8a ik =
       [83, 116, 97, 107, 105, 110, 103, 0, 0, 0, 0, 0, 0, 0, 0, 0,
        69, 114, 97, 115, 83, 116, 97, 107, 101, 114, 115, 0, 0, 0, 0, 0,
        4, 0, 0, 0, 0, 0, 0, 0, 4, 0, 0, 0]
         \<and> keyPrefix erasStakersEntry (JNumber 4) = Inr (skU8a ik))"
proof -
  have t: "type (meta stakingErasStakers) =
       DoubleMap Twox64Concat ''EraIndex'' ''AccountId'' ''Exposure'' Twox64Concat"
    by (simp add: stakingErasStakers_def)
  have a: "JNumber 4 \<noteq> JUndefined" "JNumber 4 \<noteq> JNull"
    by simp_all
  have enc: "createTypeU8a testRegistry ''EraIndex'' (JNumber 4) = Inr [4, 0, 0, 0]"
    by code_simp
  have v: "createPrefixedKey testDeps stakingErasStakers
             @ getHasher testDeps (Some Twox64Concat) [4, 0, 0, 0] =
       [83, 116, 97, 107, 105, 110, 103, 0, 0, 0, 0, 0, 0, 0, 0, 0,
        69, 114, 97, 115, 83, 116, 97, 107, 101, 114, 115, 0, 0, 0, 0, 0,
        4, 0, 0, 0, 0, 0, 0, 0, 4, 0, 0, 0]"
    by code_simp
  from iterKey_unprefixed [OF erasStakersEntry_created t a enc]
  have "\<exists>f ik. iterKey erasStakersEntry = Some f \<and> f (JNumber 4) = Inr ik
         \<and> skU8a ik =
       [83, 116, 97, 107, 105, 110, 103, 0, 0, 0, 0, 0, 0, 0, 0, 0,
        69, 114, 97, 115, 83, 116, 97, 107, 101, 114, 115, 0, 0, 0, 0, 0,
        4, 0, 0, 0, 0, 0, 0, 0, 4, 0, 0, 0]
         \<and> keyPrefix erasStakersEntry (JNumber 4) = Inr (skU8a ik)"
    unfolding v by blast
  with erasStakersEntry_created t a enc show ?thesis by (simp only: simp_thms)
qed

text \<open>
  Claim C6 as stated has the key returned by \<open>iterKey\<close> length-prefixed and the body
  without the prefix available from \<open>keyPrefix\<close> only. For \<open>Staking.ErasStakers\<close> and
  first key 4 the key returned by \<open>iterKey\<close> is the 44-byte body itself, not the body
  after its length header 176, and \<open>keyPrefix\<close> returns these same 44 bytes.
\<close>

theorem iterKey_length_prefix_counterexample:
  "the (iterKey erasStakersEntry) (JNumber 4) = Inr
      \<lparr>skU8a = [83, 116, 97, 107, 105, 110, 103, 0, 0, 0, 0, 0, 0, 0, 0, 0,
                69, 114, 97, 115, 83, 116, 97, 107, 101, 114, 115, 0, 0, 0, 0, 0,
                4, 0, 0, 0, 0, 0, 0, 0, 4, 0, 0, 0],
       skMeta = None, skMethod = ''erasStakers'', skSection = ''staking''\<rparr>
   \<and> compactAddLength (createPrefixedKey testDeps stakingErasStakers
                        @ getHasher testDeps (Some Twox64Concat) [4, 0, 0, 0]) =
       176 #
       [83, 116, 97, 107, 105, 110, 103, 0, 0, 0, 0, 0, 0, 0, 0, 0,
        69, 114, 97, 115, 83, 116, 97, 107, 101, 114, 115, 0, 0, 0, 0, 0,
        4, 0, 0, 0, 0, 0, 0, 0, 4, 0, 0, 0]
   \<and> keyPrefix erasStakersEntry (JNumber 4) = Inr
       [83, 116, 97, 107, 105, 110, 103, 0, 0, 0, 0, 0, 0, 0, 0, 0,
        69, 114, 97, 115, 83, 116, 97, 107, 101, 114, 115, 0, 0, 0, 0, 0,
        4, 0, 0, 0, 0, 0, 0, 0, 4, 0, 0, 0]"
proof -
  have "the (iterKey erasStakersEntry) (JNumber 4) = Inr
      \<lparr>skU8a = [83, 116, 97, 107, 105, 110, 103, 0, 0, 0, 0, 0, 0, 0, 0, 0,
                69, 114, 97, 115, 83, 116, 97, 107, 101, 114, 115, 0, 0, 0, 0, 0,
                4, 0, 0, 0, 0, 0, 0, 0, 4, 0, 0, 0],
       skMeta = None, skMethod = ''erasStakers'', skSection = ''staking''\<rparr>"
    by code_simp
  moreover have "compactAddLength (createPrefixedKey testDeps stakingErasStakers
                        @ getHasher testDeps (Some Twox64Concat) [4, 0, 0, 0]) =
       176 #
       [83, 116, 97, 107, 105, 110, 103, 0, 0, 0, 0, 0, 0, 0, 0, 0,
        69, 114, 97, 115, 83, 116, 97, 107, 101, 114, 115, 0, 0, 0, 0, 0,
        4, 0, 0, 0, 0, 0, 0, 0, 4, 0, 0, 0]"
    by code_simp
  moreover have "keyPrefix erasStakersEntry (JNumber 4) = Inr
       [83, 116, 97, 107, 105, 110, 103, 0, 0, 0, 0, 0, 0, 0, 0, 0,
        69, 114, 97, 115, 83, 116, 97, 107, 101, 114, 115, 0, 0, 0, 0, 0,
        4, 0, 0, 0, 0, 0, 0, 0, 4, 0, 0, 0]"
    by code_simp
  ultimately show ?thesis by (simp only: simp_thms)
qed

subsection \<open>Iteration keys of maps, and iteration without a filter\<close>

text \<open>
  Claim C7. For a map item, \<open>iterKey\<close> called with a filter key, that is with an
  argument that is neither \<open>undefined\<close> nor \<open>null\<close>, fails with the error that filtering
  arguments are only valid on double maps; \<open>keyPrefix\<close> fails in the same way. No
  bytes are returned.
\<close>

theorem iterKey_map_rejects_filter:
  assumes "createFunction d registry itemFn options = Inr entry"
    and "isMap (type (meta itemFn))"
    and "arg \<noteq> JUndefined" and "arg \<noteq> JNull"
  shows "\<exists>f. iterKey entry = Some f
           \<and> f arg = Inl (Error ''Filtering arguments for keys/entries are only valid on double maps'')
           \<and> keyPrefix entry arg =
               Inl (Error ''Filtering arguments for keys/entries are only valid on double maps'')"
proof -
  from assms(2) have np: "\<not> isPlain (type (meta itemFn))"
    by (cases "type (meta itemFn)") simp_all
  from createFunction_iterKey [OF assms(1) np] obtain f where
    f: "iterKey entry = Some f"
    and fa: "f arg = (case iterFn d registry itemFn arg of
                         Inl e \<Rightarrow> Inl e
                       | Inr raw \<Rightarrow> Inr (storageKeyOfRaw raw (stringLowerFirst (method itemFn))
                                          (section itemFn)))"
    using assms(3,4) by auto
  from assms(2,3) have "iterFn d registry itemFn arg =
      Inl (Error ''Filtering arguments for keys/entries are only valid on double maps'')"
    by (cases "type (meta itemFn)") (simp_all add: iterFn_def assert_def isUndefined_def)
  with f fa show ?thesis
    by (simp add: createFunction_keyPrefix [OF assms(1)])
qed

theorem iterKey_map_rejects_filter_witness:
  "createFunction testDeps testRegistry systemAccount noOptions = Inr accountEntry
   \<and> isMap (type (meta systemAccount))
   \<and> JU8a [1, 2, 3] \<noteq> JUndefined \<and> JU8a [1, 2, 3] \<noteq> JNull
   \<and> (\<exists>f. iterKey accountEntry = Some f
         \<and> f (JU8a [1, 2, 3]) =
             Inl (Error ''Filtering arguments for keys/entries are only valid on double maps'')
         \<and> keyPrefix accountEntry (JU8a [1, 2, 3]) =
             Inl (Error ''Filtering arguments for keys/entries are only valid on double maps''))"
proof -
  have m: "isMap (type (meta systemAccount))"
    by (simp add: systemAccount_def)
  have a: "JU8a [1, 2, 3] \<noteq> JUndefined" "JU8a [1, 2, 3] \<noteq> JNull"
    by simp_all
  from iterKey_map_rejects_filter [OF accountEntry_created m a] accountEntry_created m a
  show ?thesis by (simp only: simp_thms)
qed

text \<open>
  Claim C9. For a map or double map item, \<open>iterKey\<close> called with \<open>undefined\<close> (no
  argument) or \<open>null\<close> returns a key and no error, the same key in all these calls,
  and its bytes are the base prefix. This holds for map items too.
\<close>

theorem iterKey_without_filter:
  assumes "createFunction d registry itemFn options = Inr entry"
    and "isMap (type (meta itemFn)) \<or> isDoubleMap (type (meta itemFn))"
    and "arg = JUndefined \<or> arg = JNull"
  shows "\<exists>f k. iterKey entry = Some f \<and> f arg = Inr k \<and> f JUndefined = Inr k \<and> f JNull = Inr k
           \<and> skU8a k = createPrefixedKey d itemFn"
proof -
  from assms(2) have np: "\<not> isPlain (type (meta itemFn))"
    by (cases "type (meta itemFn)") simp_all
  from createFunction_iterKey [OF assms(1) np] assms(3) show ?thesis
    by fastforce
qed

theorem iterKey_without_filter_witness:
  "createFunction testDeps testRegistry systemAccount noOptions = Inr accountEntry
   \<and> isMap (type (meta systemAccount))
   \<and> (\<exists>f k. iterKey accountEntry = Some f \<and> f JNull = Inr k \<and> f JUndefined = Inr k
         \<and> skU8a k =
           [83, 121, 115, 116, 101, 109, 0, 0, 0, 0, 0, 0, 0, 0, 0, 0,
            65, 99, 99, 111, 117, 110, 116, 0, 0, 0, 0, 0, 0, 0, 0, 0])"
proof -
  have m: "isMap (type (meta systemAccount)) \<or> isDoubleMap (type (meta systemAccount))"
    by (simp add: systemAccount_def)
  have m': "isMap (type (meta systemAccount))"
    by (simp add: systemAccount_def)
  have v: "createPrefixedKey testDeps systemAccount =
           [83, 121, 115, 116, 101, 109, 0, 0, 0, 0, 0, 0, 0, 0, 0, 0,
            65, 99, 99, 111, 117, 110, 116, 0, 0, 0, 0, 0, 0, 0, 0, 0]"
    by code_simp
  from iterKey_without_filter [OF accountEntry_created m, of JNull]
  have "\<exists>f k. iterKey accountEntry = Some f \<and> f JNull = Inr k \<and> f JUndefined = Inr k
         \<and> skU8a k =
           [83, 121, 115, 116, 101, 109, 0, 0, 0, 0, 0, 0, 0, 0, 0, 0,
            65, 99, 99, 111, 117, 110, 116, 0, 0, 0, 0, 0, 0, 0, 0, 0]"
    unfolding v by blast
  with accountEntry_created m' show ?thesis by (simp only: simp_thms)
qed

subsection \<open>Plain items\<close>

text \<open>
  Claim C8, as amended. For a plain item, \<open>createKey\<close> returns the compact length
  prefix of the base prefix whatever the argument. Invoking the entry with any
  argument succeeds and returns the same bytes as invoking it with no argument: the
  compact length prefix of the base prefix when the entry was created without
  \<open>skipHashing\<close>, and the compact length prefix of the raw key when it was created
  with it.
\<close>

theorem plain_ignores_argument:
  assumes "type (meta itemFn) = Plain t"
  shows "createKey d registry itemFn arg hasher = Inr (compactAddLength (createPrefixedKey d itemFn))
       \<and> (createFunction d registry itemFn options = Inr entry
            \<longrightarrow> call entry arg = call entry JUndefined
              \<and> (\<exists>bytes. call entry arg = Inr bytes)
              \<and> (\<not> truthy (skipHashing options)
                   \<longrightarrow> call entry arg = Inr (compactAddLength (createPrefixedKey d itemFn)))
              \<and> (truthy (skipHashing options)
                   \<longrightarrow> call entry arg = Inr (compactAddLength (u8aToU8a d (key options)))))"
proof -
  have ck: "createKey d registry itemFn arg hasher =
      Inr (compactAddLength (createPrefixedKey d itemFn))"
    using assms by (simp add: createKey_def EMPTY_U8A_def)
  have p: "isPlain (type (meta itemFn))"
    using assms by simp
  have "call entry a =
          (if truthy (skipHashing options) then Inr (compactAddLength (u8aToU8a d (key options)))
           else Inr (compactAddLength (createPrefixedKey d itemFn)))"
    if "createFunction d registry itemFn options = Inr entry" for a
    by (rule call_plain [OF that p])
  with ck show ?thesis by simp
qed

theorem plain_ignores_argument_witness:
  "type (meta timestampNow) = Plain ''Moment''
   \<and> createFunction testDeps testRegistry timestampNow noOptions = Inr nowEntry
   \<and> \<not> truthy (skipHashing noOptions)
   \<and> call nowEntry (JString ''ignored'') = call nowEntry JUndefined
   \<and> call nowEntry (JString ''ignored'') = Inr
           [128, 84, 105, 109, 101, 115, 116, 97, 109, 112, 0, 0, 0, 0, 0, 0, 0,
            78, 111, 119, 0, 0, 0, 0, 0, 0, 0, 0, 0, 0, 0, 0, 0]
   \<and> createFunction testDeps testRegistry timestampNow rawOptions = Inr codeEntry
   \<and> truthy (skipHashing rawOptions)
   \<and> call codeEntry (JString ''ignored'') = call codeEntry JUndefined
   \<and> call codeEntry (JString ''ignored'') = Inr [20, 58, 99, 111, 100, 101]"
proof -
  have t: "type (meta timestampNow) = Plain ''Moment''"
    by (simp add: timestampNow_def)
  have ns: "\<not> truthy (skipHashing noOptions)"
    by (simp add: noOptions_def truthy_def)
  have sk: "truthy (skipHashing rawOptions)"
    by (simp add: rawOptions_def truthy_def)
  have v: "compactAddLength (createPrefixedKey testDeps timestampNow) =
           [128, 84, 105, 109, 101, 115, 116, 97, 109, 112, 0, 0, 0, 0, 0, 0, 0,
            78, 111, 119, 0, 0, 0, 0, 0, 0, 0, 0, 0, 0, 0, 0, 0]"
    by code_simp
  have r: "compactAddLength (u8aToU8a testDeps (key rawOptions)) = [20, 58, 99, 111, 100, 101]"
    by code_simp
  from plain_ignores_argument [OF t, of testDeps testRegistry "JString ''ignored''" "\<lambda>x. x"
         noOptions nowEntry] nowEntry_created ns
  have 1: "call nowEntry (JString ''ignored'') = call nowEntry JUndefined
      \<and> call nowEntry (JString ''ignored'') = Inr
           [128, 84, 105, 109, 101, 115, 116, 97, 109, 112, 0, 0, 0, 0, 0, 0, 0,
            78, 111, 119, 0, 0, 0, 0, 0, 0, 0, 0, 0, 0, 0, 0, 0]"
    unfolding v by blast
  from plain_ignores_argument [OF t, of testDeps testRegistry "JString ''ignored''" "\<lambda>x. x"
         rawOptions codeEntry] codeEntry_created sk
  have 2: "call codeEntry (JString ''ignored'') = call codeEntry JUndefined
      \<and> call codeEntry (JString ''ignored'') = Inr [20, 58, 99, 111, 100, 101]"
    unfolding r by blast
  from 1 2 t nowEntry_created codeEntry_created ns sk show ?thesis by blast
qed

text \<open>
  Claim C8 as stated gives the compact length prefix of the base prefix for every
  plain item. The entry of the plain item \<open>Timestamp.Now\<close> created with the raw key
  \<open>:code\<close> and \<open>skipHashing\<close>, invoked with the number 4, returns the length-prefixed
  raw key, which is not the length-prefixed base prefix.
\<close>

theorem plain_raw_key_counterexample:
  "createFunction testDeps testRegistry timestampNow rawOptions = Inr codeEntry
   \<and> isPlain (type (meta timestampNow))
   \<and> call codeEntry (JNumber 4) = Inr [20, 58, 99, 111, 100, 101]
   \<and> compactAddLength (createPrefixedKey testDeps timestampNow) =
           [128, 84, 105, 109, 101, 115, 116, 97, 109, 112, 0, 0, 0, 0, 0, 0, 0,
            78, 111, 119, 0, 0, 0, 0, 0, 0, 0, 0, 0, 0, 0, 0, 0]
   \<and> call codeEntry (JNumber 4) \<noteq>
       Inr (compactAddLength (createPrefixedKey testDeps timestampNow))"
proof -
  have p: "isPlain (type (meta timestampNow))"
    by (simp add: timestampNow_def)
  have c: "call codeEntry (JNumber 4) = Inr [20, 58, 99, 111, 100, 101]"
    by code_simp
  have v: "compactAddLength (createPrefixedKey testDeps timestampNow) =
           [128, 84, 105, 109, 101, 115, 116, 97, 109, 112, 0, 0, 0, 0, 0, 0, 0,
            78, 111, 119, 0, 0, 0, 0, 0, 0, 0, 0, 0, 0, 0, 0, 0]"
    by code_simp
  have "call codeEntry (JNumber 4) \<noteq>
       Inr (compactAddLength (createPrefixedKey testDeps timestampNow))"
    unfolding c v by simp
  with p c v codeEntry_created show ?thesis by blast
qed

subsection \<open>The exposed method name\<close>

text \<open>
  Claim C10. The \<open>method\<close> field of the entry is the item's method name with its
  first character lowercased, while the base prefix is hashed over the item's method
  name as given; the keys of the entry are built on that base prefix (the prefix key
  of a map or double map, the key of a plain item). So where the first character of
  the method name changes under lowercasing, the exposed method differs from the
  hashed string.
\<close>

theorem exposed_method_lowercased:
  assumes "createFunction d registry itemFn options = Inr entry"
  shows "method entry = stringLowerFirst (method itemFn)
       \<and> createPrefixedKey d itemFn =
           xxhashAsU8a d (prefix itemFn) 128 @ xxhashAsU8a d (method itemFn) 128
       \<and> (\<not> isPlain (type (meta itemFn))
            \<longrightarrow> keyPrefix entry JUndefined = Inr (createPrefixedKey d itemFn))
       \<and> (isPlain (type (meta itemFn)) \<and> \<not> truthy (skipHashing options)
            \<longrightarrow> call entry JUndefined = Inr (compactAddLength (createPrefixedKey d itemFn)))
       \<and> (method itemFn \<noteq> [] \<and> toLowerCase (hd (method itemFn)) \<noteq> hd (method itemFn)
            \<longrightarrow> method entry \<noteq> method itemFn)"
proof -
  have "method entry = stringLowerFirst (method itemFn)"
    by (rule createFunction_fields(3) [OF assms])
  moreover have "method itemFn \<noteq> [] \<and> toLowerCase (hd (method itemFn)) \<noteq> hd (method itemFn)
            \<longrightarrow> stringLowerFirst (method itemFn) \<noteq> method itemFn"
    by (cases "method itemFn") (simp_all add: stringLowerFirst_def)
  moreover have "createPrefixedKey d itemFn =
           xxhashAsU8a d (prefix itemFn) 128 @ xxhashAsU8a d (method itemFn) 128"
    by (simp add: createPrefixedKey_def)
  moreover have "\<not> isPlain (type (meta itemFn))
            \<longrightarrow> keyPrefix entry JUndefined = Inr (createPrefixedKey d itemFn)"
    using keyPrefix_keyed_no_arg [OF assms] by blast
  moreover have "isPlain (type (meta itemFn)) \<and> \<not> truthy (skipHashing options)
            \<longrightarrow> call entry JUndefined = Inr (compactAddLength (createPrefixedKey d itemFn))"
    using call_plain [OF assms, of JUndefined] by simp
  ultimately show ?thesis by simp
qed

theorem exposed_method_lowercased_witness:
  "createFunction testDeps testRegistry systemAccount noOptions = Inr accountEntry
   \<and> method systemAccount = ''Account''
   \<and> toLowerCase (hd (method systemAccount)) = CHR ''a''
   \<and> method accountEntry = ''account''
   \<and> method accountEntry \<noteq> method systemAccount
   \<and> \<not> isPlain (type (meta systemAccount))
   \<and> keyPrefix accountEntry JUndefined =
       Inr (xxhashAsU8a testDeps ''System'' 128 @ xxhashAsU8a testDeps ''Account'' 128)
   \<and> createFunction testDeps testRegistry timestampNow noOptions = Inr nowEntry
   \<and> isPlain (type (meta timestampNow)) \<and> \<not> truthy (skipHashing noOptions)
   \<and> method nowEntry = ''now''
   \<and> call nowEntry JUndefined =
       Inr (compactAddLength
              (xxhashAsU8a testDeps ''Timestamp'' 128 @ xxhashAsU8a testDeps ''Now'' 128))"
proof -
  have a: "method systemAccount = ''Account''" "prefix systemAccount = ''System''"
    "\<not> isPlain (type (meta systemAccount))"
    by (simp_all add: systemAccount_def)
  have l: "toLowerCase (hd (method systemAccount)) = CHR ''a''"
    "stringLowerFirst ''Account'' = ''account''" "stringLowerFirst ''Now'' = ''now''"
    by code_simp+
  have n: "method timestampNow = ''Now''" "prefix timestampNow = ''Timestamp''"
    "isPlain (type (meta timestampNow))" "\<not> truthy (skipHashing noOptions)"
    by (simp_all add: timestampNow_def noOptions_def truthy_def)
  note w1 = exposed_method_lowercased [OF accountEntry_created, unfolded a l]
  note w2 = exposed_method_lowercased [OF nowEntry_created, unfolded n l]
  from w1 w2 a l n nowEntry_created accountEntry_created show ?thesis by simp
qed

end
